theory Spec2Isabelle
  imports Main "HOL-Library.Word"
begin

section \<open>JavaScript values used by the client\<close>

text \<open>
  A JavaScript string is a sequence of 16-bit code units; \<open>length\<close>, \<open>trim\<close> and a
  regular expression without the \<open>u\<close> flag all work on code units.
\<close>

type_synonym code_unit = "16 word"
type_synonym jsstring = "code_unit list"

text \<open>An ASCII literal of the source, as code units.\<close>

definition js :: "string \<Rightarrow> jsstring" where
  "js s = map (\<lambda>c. of_nat (of_char c)) s"

text \<open>
  ECMAScript \<open>WhiteSpace\<close> and \<open>LineTerminator\<close> code points: what
  \<open>String.prototype.trim\<close> strips and what \<open>\s\<close> matches.
\<close>

definition isWhiteSpace :: "code_unit \<Rightarrow> bool" where
  "isWhiteSpace c \<longleftrightarrow>
     c = 0x0009 \<or> c = 0x000A \<or> c = 0x000B \<or> c = 0x000C \<or> c = 0x000D \<or> c = 0x0020 \<or>
     c = 0x00A0 \<or> c = 0x1680 \<or> (0x2000 \<le> c \<and> c \<le> 0x200A) \<or> c = 0x2028 \<or> c = 0x2029 \<or>
     c = 0x202F \<or> c = 0x205F \<or> c = 0x3000 \<or> c = 0xFEFF"

definition trim :: "jsstring \<Rightarrow> jsstring" where
  "trim s = rev (dropWhile isWhiteSpace (rev (dropWhile isWhiteSpace s)))"

definition startsWith :: "jsstring \<Rightarrow> jsstring \<Rightarrow> bool" where
  "startsWith s p \<longleftrightarrow> take (length p) s = p"

text \<open>
  An optional field read from JSON: absent (\<open>undefined\<close>), \<open>null\<close>, or a value.
  Strict equality \<open>===\<close> on such values is equality of this type.
\<close>

datatype 'a opt = Undefined | Null | Val 'a

text \<open>Truthiness of an optional number: \<open>undefined\<close>, \<open>null\<close> and \<open>0\<close> are falsy.\<close>

fun truthy :: "int opt \<Rightarrow> bool" where
  "truthy Undefined = False"
| "truthy Null = False"
| "truthy (Val n) = (n \<noteq> 0)"

text \<open>\<open>xs || []\<close> on an optional array.\<close>

fun orEmpty :: "'a list option \<Rightarrow> 'a list" where
  "orEmpty None = []"
| "orEmpty (Some xs) = xs"

section \<open>Data model of \<open>ChatApp.tsx\<close>\<close>

text \<open>
  The file holds two revisions of the component. The model follows the later one, which
  has direct messages, replies, file uploads, reactions and deletion.
\<close>

record User =
  uid :: int
  username :: jsstring
  email :: jsstring

record Reaction =
  emoji :: jsstring
  users :: "jsstring list"

datatype MessageType = TextT | ImageT | VideoT | FileT

text \<open>
  \<open>interface ChatMessage\<close>, fields in the order of the source: \<open>id?\<close>, \<open>user\<close>,
  \<open>content\<close>, \<open>created_at\<close>, \<open>messageType?\<close>, \<open>fileUrl?\<close>, \<open>fileName?\<close>, \<open>fileSize?\<close>,
  \<open>replyTo?\<close>, \<open>recipientId?\<close>, \<open>recipientUsername?\<close>, \<open>recipientEmail?\<close>, \<open>reactions?\<close>.
  Only \<open>recipientId\<close> is compared with \<open>===\<close> against a possibly undefined value, so
  it alone keeps \<open>undefined\<close> and \<open>null\<close> apart; for the other optional fields
  \<open>None\<close> stands for both.
\<close>

datatype ChatMessage = ChatMessage
  (msg_id: "jsstring option")
  (msg_user: User)
  (content: jsstring)
  (created_at: jsstring)
  (messageType: "MessageType option")
  (fileUrl: "jsstring option")
  (fileName: "jsstring option")
  (fileSize: "int option")
  (msg_replyTo: "ChatMessage option")
  (recipientId: "int opt")
  (recipientUsername: "jsstring option")
  (recipientEmail: "jsstring option")
  (reactions: "Reaction list option")

text \<open>The object spread \<open>{ ...msg, reactions: rs }\<close>.\<close>

fun with_reactions :: "ChatMessage \<Rightarrow> Reaction list \<Rightarrow> ChatMessage" where
  "with_reactions (ChatMessage i u c t mt fu fn fs rt rid run rem _) rs =
     ChatMessage i u c t mt fu fn fs rt rid run rem (Some rs)"

text \<open>\<open>type ServerEvent\<close>; the arrays of \<open>boot\<close> and \<open>online_users\<close> are read through \<open>|| []\<close>.\<close>

datatype ServerEvent =
    Boot "ChatMessage list option" "User list option"
  | Message ChatMessage
  | Online_users "User list option"
  | ReactionEv jsstring Reaction
  | Delete jsstring
  | Error jsstring

text \<open>
  An inbound frame, by the outcome of \<open>JSON.parse(event.data) as ServerEvent\<close>: when
  parsing throws, control reaches the \<open>catch\<close> block, which reads the payload text;
  otherwise the handler works on the event of the declared type.
\<close>

datatype Inbound = Unparseable jsstring | Parsed ServerEvent

text \<open>
  What the \<open>ws.onmessage\<close> closure captures from the render that created it. The
  effect returns early on \<open>!user\<close>, so the captured user is never null and
  \<open>user?.id\<close> is its id.
\<close>

record Conversation =
  isDirectMessage :: bool
  selectedUser :: "User option"

text \<open>The state the handler updates through \<open>setMessages\<close> and \<open>setOnlineUsers\<close>.\<close>

record Feed =
  messages :: "ChatMessage list"
  onlineUsers :: "User list"

text \<open>\<open>Date.now().toString()\<close> and \<open>new Date().toISOString()\<close> at the time of the call.\<close>

record Clock =
  nowString :: jsstring
  nowISO :: jsstring

text \<open>\<open>selectedUser?.id\<close>\<close>

fun optId :: "User option \<Rightarrow> int opt" where
  "optId None = Undefined"
| "optId (Some u) = Val (uid u)"

section \<open>\<open>ws.onmessage\<close>\<close>

text \<open>
  One branch per event type, in the order of the source. Ids are JSON numbers, taken
  as integers. In the \<open>catch\<close> block \<open>String(event.data || "")\<close> is the payload text
  itself; the \<open>console\<close> calls are left out.
\<close>

definition onmessage ::
  "Clock \<Rightarrow> User \<Rightarrow> Conversation \<Rightarrow> Inbound \<Rightarrow> Feed \<Rightarrow> Feed" where
  "onmessage clk user c event prev =
    (case event of
       Parsed (Boot ms ous) \<Rightarrow>
         (let allMessages = orEmpty ms in
          (if isDirectMessage c \<and> selectedUser c \<noteq> None
           then prev\<lparr>messages := filter (\<lambda>msg.
                   (Val (uid (msg_user msg)) = Val (uid user) \<and> recipientId msg = optId (selectedUser c)) \<or>
                   (Val (uid (msg_user msg)) = optId (selectedUser c) \<and> recipientId msg = Val (uid user)))
                 allMessages\<rparr>
           else prev\<lparr>messages := filter (\<lambda>msg. \<not> truthy (recipientId msg)) allMessages\<rparr>)
          \<lparr>onlineUsers := orEmpty ous\<rparr>)
     | Parsed (Message message) \<Rightarrow>
         (if isDirectMessage c
          then (if (Val (uid (msg_user message)) = Val (uid user) \<and> recipientId message = optId (selectedUser c)) \<or>
                   (Val (uid (msg_user message)) = optId (selectedUser c) \<and> recipientId message = Val (uid user))
                then prev\<lparr>messages := messages prev @ [message]\<rparr>
                else prev)
          else (if \<not> truthy (recipientId message)
                then prev\<lparr>messages := messages prev @ [message]\<rparr>
                else prev))
     | Parsed (Online_users ous) \<Rightarrow> prev\<lparr>onlineUsers := orEmpty ous\<rparr>
     | Parsed (ReactionEv messageId reaction) \<Rightarrow>
         prev\<lparr>messages := map (\<lambda>msg.
             if msg_id msg = Some messageId
             then with_reactions msg (orEmpty (reactions msg) @ [reaction])
             else msg) (messages prev)\<rparr>
     | Parsed (Delete messageId) \<Rightarrow>
         prev\<lparr>messages := filter (\<lambda>msg. msg_id msg \<noteq> Some messageId) (messages prev)\<rparr>
     | Parsed (Error _) \<Rightarrow> prev
     | Unparseable data \<Rightarrow>
         (let asText = data in
          if length (trim asText) > 0
          then prev\<lparr>messages := messages prev @
                 [ChatMessage (Some (nowString clk))
                    \<lparr>uid = 0, username = js ''System'', email = js ''system''\<rparr>
                    asText (nowISO clk) (Some TextT)
                    None None None None Undefined None None None]\<rparr>
          else prev))"

text \<open>
  The predicate each branch applies to a message, as written in the \<open>boot\<close> branch
  (guarded by \<open>isDirectMessage && selectedUser\<close>) and in the \<open>message\<close> branch
  (guarded by \<open>isDirectMessage\<close> alone).
\<close>

definition bootAccepts :: "User \<Rightarrow> Conversation \<Rightarrow> ChatMessage \<Rightarrow> bool" where
  "bootAccepts user c msg =
     (if isDirectMessage c \<and> selectedUser c \<noteq> None
      then (Val (uid (msg_user msg)) = Val (uid user) \<and> recipientId msg = optId (selectedUser c)) \<or>
           (Val (uid (msg_user msg)) = optId (selectedUser c) \<and> recipientId msg = Val (uid user))
      else \<not> truthy (recipientId msg))"

definition liveAccepts :: "User \<Rightarrow> Conversation \<Rightarrow> ChatMessage \<Rightarrow> bool" where
  "liveAccepts user c message =
     (if isDirectMessage c
      then (Val (uid (msg_user message)) = Val (uid user) \<and> recipientId message = optId (selectedUser c)) \<or>
           (Val (uid (msg_user message)) = optId (selectedUser c) \<and> recipientId message = Val (uid user))
      else \<not> truthy (recipientId message))"

text \<open>
  Frames are handled one at a time, in arrival order; each comes with the clock reading
  at its arrival.
\<close>

fun deliver ::
  "User \<Rightarrow> Conversation \<Rightarrow> (Clock \<times> Inbound) list \<Rightarrow> Feed \<Rightarrow> Feed" where
  "deliver user c [] prev = prev"
| "deliver user c ((clk, event) # frames) prev =
     deliver user c frames (onmessage clk user c event prev)"

text \<open>A frame that parses to a \<open>message\<close> event.\<close>

definition messageFrame :: "Clock \<times> ChatMessage \<Rightarrow> Clock \<times> Inbound" where
  "messageFrame f = (case f of (clk, m) \<Rightarrow> (clk, Parsed (Message m)))"

section \<open>Switching conversations\<close>

text \<open>The initial values of the \<open>useState\<close> hooks.\<close>

definition initialConversation :: Conversation where
  "initialConversation = \<lparr>isDirectMessage = False, selectedUser = None\<rparr>"

definition handleUserSelect :: "User \<Rightarrow> Conversation \<times> Feed \<Rightarrow> Conversation \<times> Feed" where
  "handleUserSelect u s =
     (case s of (c, prev) \<Rightarrow>
        (c\<lparr>selectedUser := Some u, isDirectMessage := True\<rparr>, prev\<lparr>messages := []\<rparr>))"

definition handleGeneralChat :: "Conversation \<times> Feed \<Rightarrow> Conversation \<times> Feed" where
  "handleGeneralChat s =
     (case s of (c, prev) \<Rightarrow>
        (c\<lparr>selectedUser := None, isDirectMessage := False\<rparr>, prev\<lparr>messages := []\<rparr>))"

text \<open>The conversation states the two handlers can produce from the initial one.\<close>

inductive reachableConversation :: "Conversation \<Rightarrow> bool" where
  initial: "reachableConversation initialConversation"
| select: "reachableConversation c \<Longrightarrow> reachableConversation (fst (handleUserSelect u (c, prev)))"
| general: "reachableConversation c \<Longrightarrow> reachableConversation (fst (handleGeneralChat (c, prev)))"

section \<open>The component and its installed handler\<close>

text \<open>
  \<open>ws.onmessage\<close> is assigned inside an effect whose dependencies are \<open>[user, token]\<close>.
  The handler therefore keeps the \<open>isDirectMessage\<close> and \<open>selectedUser\<close> of the render
  in which the effect ran; \<open>handleUserSelect\<close> and \<open>handleGeneralChat\<close> change neither
  dependency, so they leave the installed handler as it is. The component state is the
  conversation on screen, the feed, and what the installed handler captured (nothing
  before the effect has run).
\<close>

record Client =
  conversation :: Conversation
  feed :: Feed
  captured :: "Conversation option"

text \<open>The first render: the initial values of the hooks, no socket yet.\<close>

definition mounted :: Client where
  "mounted =
     \<lparr>conversation = initialConversation, feed = \<lparr>messages = [], onlineUsers = []\<rparr>,
      captured = None\<rparr>"

text \<open>
  The effect, run when the profile has arrived: it opens the socket and installs a
  handler that closes over the conversation of that render.
\<close>

definition connectEffect :: "Client \<Rightarrow> Client" where
  "connectEffect cl = cl\<lparr>captured := Some (conversation cl)\<rparr>"

text \<open>A click on a user, and a click on the general chat.\<close>

definition selectUser :: "User \<Rightarrow> Client \<Rightarrow> Client" where
  "selectUser u cl =
     (case handleUserSelect u (conversation cl, feed cl) of
        (c, f) \<Rightarrow> cl\<lparr>conversation := c, feed := f\<rparr>)"

definition selectGeneralChat :: "Client \<Rightarrow> Client" where
  "selectGeneralChat cl =
     (case handleGeneralChat (conversation cl, feed cl) of
        (c, f) \<Rightarrow> cl\<lparr>conversation := c, feed := f\<rparr>)"

text \<open>An inbound frame goes to the installed handler, with the state it captured.\<close>

definition receive :: "Clock \<Rightarrow> User \<Rightarrow> Inbound \<Rightarrow> Client \<Rightarrow> Client" where
  "receive clk user event cl =
     (case captured cl of
        None \<Rightarrow> cl
      | Some c \<Rightarrow> cl\<lparr>feed := onmessage clk user c event (feed cl)\<rparr>)"

section \<open>Outbound frames\<close>

text \<open>
  The values the client builds for \<open>JSON.stringify\<close>: objects with string keys, in the
  order the source writes them, holding strings, numbers and \<open>null\<close>.
\<close>

datatype json = JNull | JString jsstring | JNumber int | JObject "(string \<times> json) list"

text \<open>
  What is handed to \<open>WebSocket.send\<close>: raw text, or the serialisation of a JSON value
  (kept as the value).
\<close>

datatype Frame = TextFrame jsstring | JsonFrame json

datatype ReadyState = CONNECTING | OPEN | CLOSING | CLOSED

text \<open>
  State read and written by the composer functions: \<open>wsRef.current\<close> (absent, or a
  socket in some ready state), the text box and the message being replied to.
\<close>

record Composer =
  wsRef :: "ReadyState option"
  input :: jsstring
  replyTo :: "ChatMessage option"

text \<open>\<open>!wsRef.current || wsRef.current.readyState !== WebSocket.OPEN\<close>\<close>

fun notOpen :: "ReadyState option \<Rightarrow> bool" where
  "notOpen None = True"
| "notOpen (Some r) = (r \<noteq> OPEN)"

text \<open>\<open>replyTo?.id ? String(replyTo.id) : null\<close>: a missing or empty id is falsy.\<close>

fun replyToId :: "ChatMessage option \<Rightarrow> json" where
  "replyToId None = JNull"
| "replyToId (Some m) =
     (case msg_id m of None \<Rightarrow> JNull | Some i \<Rightarrow> if i = [] then JNull else JString i)"

text \<open>\<open>selectedUser?.id || null\<close>: no selected user, or the id \<open>0\<close>, gives \<open>null\<close>.\<close>

fun recipientOrNull :: "User option \<Rightarrow> json" where
  "recipientOrNull None = JNull"
| "recipientOrNull (Some u) = (if uid u = 0 then JNull else JNumber (uid u))"

text \<open>
  Each function returns the frame it sends, if any, and the composer state after it.
\<close>

definition sendMessage :: "Conversation \<Rightarrow> Composer \<Rightarrow> Frame option \<times> Composer" where
  "sendMessage c s =
     (let trimmed = trim (input s) in
      if trimmed = [] \<or> notOpen (wsRef s) then (None, s)
      else
        (Some (if isDirectMessage c \<or> replyTo s \<noteq> None
               then JsonFrame (JObject
                      [(''content'', JString trimmed),
                       (''replyTo'', replyToId (replyTo s)),
                       (''recipientId'', recipientOrNull (selectedUser c)),
                       (''messageType'', JString (js ''text''))])
               else TextFrame trimmed),
         s\<lparr>input := [], replyTo := None\<rparr>))"

definition sendEmojiDirectly :: "Conversation \<Rightarrow> Composer \<Rightarrow> jsstring \<Rightarrow> Frame option \<times> Composer" where
  "sendEmojiDirectly c s emoji' =
     (if notOpen (wsRef s) then (None, s)
      else
        (Some (if isDirectMessage c
               then JsonFrame (JObject
                      [(''content'', JString emoji'),
                       (''recipientId'', recipientOrNull (selectedUser c)),
                       (''messageType'', JString (js ''text''))])
               else TextFrame emoji'),
         s))"

text \<open>
  The strings of the quick-send row, the only arguments \<open>sendEmojiDirectly\<close> is called
  with, as the code units of the source text.
\<close>

definition quickSendEmojis :: "jsstring list" where
  "quickSendEmojis =
     [[0xF0, 0x178, 0x2018], [0xE2, 0xA4, 0xEF, 0xB8], [0xF0, 0x178, 0x2DC, 0x201A],
      [0xF0, 0x178, 0x2DC, 0xAE], [0xF0, 0x178, 0x2DC, 0xA2], [0xF0, 0x178, 0x2DC, 0xA1],
      [0xF0, 0x178, 0x2018], [0xF0, 0x178, 0x2122], [0xF0, 0x178, 0x201D, 0xA5],
      [0xF0, 0x178, 0x2019, 0xAF]]"

text \<open>
  The three properties \<open>handleFileUpload\<close> destructures from the JSON body of the
  upload's answer. The body is not checked: a property the body lacks is \<open>undefined\<close>
  (\<open>None\<close>), and \<open>JSON.stringify\<close> leaves a key with that value out of the frame.
\<close>

record UploadResponse =
  upFileUrl :: "json option"
  upFileName :: "json option"
  upFileSize :: "json option"

fun optionalKey :: "string \<Rightarrow> json option \<Rightarrow> (string \<times> json) list" where
  "optionalKey k None = []"
| "optionalKey k (Some v) = [(k, v)]"

text \<open>
  The upload either fails (the \<open>fetch\<close> rejects, or the body is not JSON or cannot be
  destructured: the \<open>catch\<close> block), answers with a status that is not ok, or answers
  ok with a body.
\<close>

datatype UploadOutcome = UploadFailed | UploadNotOk | UploadOk UploadResponse

text \<open>The one property of the chosen \<open>File\<close> the function reads: its MIME type.\<close>

record File =
  fileType :: jsstring

definition handleFileUpload ::
  "File option \<Rightarrow> UploadOutcome \<Rightarrow> Composer \<Rightarrow> Frame option \<times> Composer" where
  "handleFileUpload file outcome s =
     (case file of
        None \<Rightarrow> (None, s)
      | Some f \<Rightarrow>
          if notOpen (wsRef s) then (None, s)
          else
            (case outcome of
               UploadOk r \<Rightarrow>
                 (Some (JsonFrame (JObject
                    ([(''content'', JString [])] @
                     optionalKey ''fileUrl'' (upFileUrl r) @
                     optionalKey ''fileName'' (upFileName r) @
                     optionalKey ''fileSize'' (upFileSize r) @
                     [(''messageType'', JString
                         (if startsWith (fileType f) (js ''image/'') then js ''image''
                          else if startsWith (fileType f) (js ''video/'') then js ''video''
                          else js ''file'')),
                      (''replyTo'', replyToId (replyTo s))]))),
                  s\<lparr>replyTo := None\<rparr>)
             | UploadNotOk \<Rightarrow> (None, s)
             | UploadFailed \<Rightarrow> (None, s)))"

text \<open>
  Modelled from the spec: the Message Store is not part of the repository. The
  dispatcher parses every inbound frame as JSON first and builds the candidate message
  from the structured payload; \<open>append\<close> fails with \<open>ValidationError\<close> if the content
  is empty and there is no \<open>fileUrl\<close>. This is that check on a structured payload.
\<close>

fun nonEmptyString :: "json option \<Rightarrow> bool" where
  "nonEmptyString (Some (JString t)) = (t \<noteq> [])"
| "nonEmptyString _ = False"

fun isString :: "json option \<Rightarrow> bool" where
  "isString (Some (JString t)) = True"
| "isString _ = False"

fun validPayload :: "json \<Rightarrow> bool" where
  "validPayload (JObject kvs) =
     (nonEmptyString (map_of kvs ''content'') \<or> isString (map_of kvs ''fileUrl''))"
| "validPayload _ = False"

section \<open>Reactions and deletion over HTTP\<close>

record HttpRequest =
  httpMethod :: string
  url :: jsstring
  bearer :: jsstring
  body :: "json option"

definition addReaction ::
  "jsstring \<Rightarrow> ReadyState option \<Rightarrow> jsstring \<Rightarrow> jsstring \<Rightarrow> HttpRequest option" where
  "addReaction token ws messageId emoji' =
     (if notOpen ws then None
      else Some \<lparr>httpMethod = ''POST'',
                 url = js ''http://localhost:8000/messages/'' @ messageId @ js ''/reactions'',
                 bearer = token,
                 body = Some (JObject [(''emoji'', JString emoji')])\<rparr>)"

definition deleteMessage :: "jsstring \<Rightarrow> ReadyState option \<Rightarrow> jsstring \<Rightarrow> HttpRequest option" where
  "deleteMessage token ws messageId =
     (if notOpen ws then None
      else Some \<lparr>httpMethod = ''DELETE'',
                 url = js ''http://localhost:8000/messages/'' @ messageId,
                 bearer = token,
                 body = None\<rparr>)"

section \<open>\<open>AuthForm.tsx\<close>\<close>

subsection \<open>The regular expression of the e-mail check\<close>

text \<open>
  Regular expressions over code units, with the two kinds of atom the pattern
  \<open>/\S+@\S+\.\S+/\<close> uses: a literal code unit and the class \<open>\S\<close>, every code unit that
  is not white space.
\<close>

datatype atom = Lit code_unit | NonSpace

datatype regex = Zero | One | Atom atom | Alt regex regex | Seq regex regex | Star regex

text \<open>\<open>r+\<close> is \<open>r\<close> followed by \<open>r*\<close>.\<close>

definition Plus :: "regex \<Rightarrow> regex" where
  "Plus r = Seq r (Star r)"

fun matchesAtom :: "atom \<Rightarrow> code_unit \<Rightarrow> bool" where
  "matchesAtom (Lit a) c = (c = a)"
| "matchesAtom NonSpace c = (\<not> isWhiteSpace c)"

fun nullable :: "regex \<Rightarrow> bool" where
  "nullable Zero = False"
| "nullable One = True"
| "nullable (Atom a) = False"
| "nullable (Alt r s) = (nullable r \<or> nullable s)"
| "nullable (Seq r s) = (nullable r \<and> nullable s)"
| "nullable (Star r) = True"

text \<open>What remains to be matched after reading one code unit.\<close>

fun deriv :: "code_unit \<Rightarrow> regex \<Rightarrow> regex" where
  "deriv c Zero = Zero"
| "deriv c One = Zero"
| "deriv c (Atom a) = (if matchesAtom a c then One else Zero)"
| "deriv c (Alt r s) = Alt (deriv c r) (deriv c s)"
| "deriv c (Seq r s) =
     (if nullable r then Alt (Seq (deriv c r) s) (deriv c s) else Seq (deriv c r) s)"
| "deriv c (Star r) = Seq (deriv c r) (Star r)"

text \<open>Some prefix of the string matches the expression.\<close>

fun matchesPrefix :: "regex \<Rightarrow> jsstring \<Rightarrow> bool" where
  "matchesPrefix r [] = nullable r"
| "matchesPrefix r (c # s) = (nullable r \<or> matchesPrefix (deriv c r) s)"

text \<open>
  \<open>RegExp.prototype.test\<close> of an expression without flags and without anchors: there is
  a match starting at some index of the string.
\<close>

fun test :: "regex \<Rightarrow> jsstring \<Rightarrow> bool" where
  "test r [] = nullable r"
| "test r (c # s) = (matchesPrefix r (c # s) \<or> test r s)"

text \<open>\<open>/\S+@\S+\.\S+/\<close>\<close>

definition emailRegex :: regex where
  "emailRegex =
     Seq (Plus (Atom NonSpace))
       (Seq (Atom (Lit 0x40))
          (Seq (Plus (Atom NonSpace))
             (Seq (Atom (Lit 0x2E))
                (Plus (Atom NonSpace)))))"

text \<open>
  The words an expression denotes, against which the matcher is checked: \<open>Star\<close> is
  any number of pieces, \<open>Seq\<close> is concatenation.
\<close>

inductive denotes :: "regex \<Rightarrow> jsstring \<Rightarrow> bool" where
  dOne: "denotes One []"
| dAtom: "matchesAtom a c \<Longrightarrow> denotes (Atom a) [c]"
| dAltL: "denotes r w \<Longrightarrow> denotes (Alt r s) w"
| dAltR: "denotes s w \<Longrightarrow> denotes (Alt r s) w"
| dSeq: "denotes r u \<Longrightarrow> denotes s v \<Longrightarrow> denotes (Seq r s) (u @ v)"
| dStarNil: "denotes (Star r) []"
| dStarCons: "denotes r u \<Longrightarrow> denotes (Star r) v \<Longrightarrow> denotes (Star r) (u @ v)"

subsection \<open>\<open>validateForm\<close> and \<open>handleSubmit\<close>\<close>

datatype Mode = signin | signup

text \<open>The \<open>formData\<close> state: \<open>email\<close>, \<open>password\<close>, \<open>username\<close>.\<close>

record FormData =
  fdEmail :: jsstring
  fdPassword :: jsstring
  fdUsername :: jsstring

text \<open>
  \<open>newErrors\<close>, as the entries the three statements add, in order; each key is
  assigned at most once.
\<close>

definition validateForm :: "Mode \<Rightarrow> FormData \<Rightarrow> (string \<times> string) list" where
  "validateForm mode formData =
     (if fdEmail formData = [] then [(''email'', ''Email is required'')]
      else if \<not> test emailRegex (fdEmail formData) then [(''email'', ''Email is invalid'')]
      else []) @
     (if fdPassword formData = [] then [(''password'', ''Password is required'')]
      else if length (fdPassword formData) < 6
        then [(''password'', ''Password must be at least 6 characters'')]
      else []) @
     (if mode = signup \<and> fdUsername formData = [] then [(''username'', ''Username is required'')]
      else if mode = signup \<and> length (fdUsername formData) < 3
        then [(''username'', ''Username must be at least 3 characters'')]
      else [])"

text \<open>\<open>Object.keys(newErrors).length === 0\<close>, the value \<open>validateForm\<close> returns.\<close>

definition formIsValid :: "Mode \<Rightarrow> FormData \<Rightarrow> bool" where
  "formIsValid mode formData \<longleftrightarrow> length (map fst (validateForm mode formData)) = 0"

text \<open>The argument of \<open>onSubmit\<close>; the \<open>username\<close> key is absent in sign-in mode.\<close>

record SubmitData =
  sdEmail :: jsstring
  sdPassword :: jsstring
  sdUsername :: "jsstring option"

text \<open>\<open>handleSubmit\<close>: the call of \<open>onSubmit\<close> it makes, if any.\<close>

definition handleSubmit :: "Mode \<Rightarrow> FormData \<Rightarrow> SubmitData option" where
  "handleSubmit mode formData =
     (if formIsValid mode formData
      then Some (if mode = signup
                 then \<lparr>sdEmail = fdEmail formData, sdPassword = fdPassword formData,
                       sdUsername = Some (fdUsername formData)\<rparr>
                 else \<lparr>sdEmail = fdEmail formData, sdPassword = fdPassword formData,
                       sdUsername = None\<rparr>)
      else None)"

section \<open>Example data\<close>

definition alice :: User where
  "alice = \<lparr>uid = 1, username = js ''alice'', email = js ''alice@example.com''\<rparr>"

definition bob :: User where
  "bob = \<lparr>uid = 2, username = js ''bob'', email = js ''bob@example.com''\<rparr>"

definition carol :: User where
  "carol = \<lparr>uid = 3, username = js ''carol'', email = js ''carol@example.com''\<rparr>"

text \<open>A text message with the given id, author, content and recipient.\<close>

definition textMessage :: "string \<Rightarrow> User \<Rightarrow> string \<Rightarrow> int opt \<Rightarrow> ChatMessage" where
  "textMessage i u t r =
     ChatMessage (Some (js i)) u (js t) (js ''2025-01-01T00:00:00.000Z'') (Some TextT)
       None None None None r None None None"

definition noon :: Clock where
  "noon = \<lparr>nowString = js ''1735732800000'', nowISO = js ''2025-01-01T12:00:00.000Z''\<rparr>"

definition emptyFeed :: Feed where
  "emptyFeed = \<lparr>messages = [], onlineUsers = []\<rparr>"

definition generalChat :: Conversation where
  "generalChat = \<lparr>isDirectMessage = False, selectedUser = None\<rparr>"

definition directWith :: "User \<Rightarrow> Conversation" where
  "directWith u = \<lparr>isDirectMessage = True, selectedUser = Some u\<rparr>"

definition thumbsUp :: jsstring where
  "thumbsUp = [0xD83D, 0xDC4D]"

text \<open>The fourteen characters \<open>{"content":""}\<close>, typed into the text box.\<close>

definition emptyContentText :: jsstring where
  "emptyContentText =
     [0x7B, 0x22, 0x63, 0x6F, 0x6E, 0x74, 0x65, 0x6E, 0x74, 0x22, 0x3A, 0x22, 0x22, 0x7D]"

section \<open>What the handler does on each kind of frame\<close>

lemma onmessage_Boot:
  "onmessage clk user c (Parsed (Boot ms ous)) prev =
     prev\<lparr>messages := filter (bootAccepts user c) (orEmpty ms), onlineUsers := orEmpty ous\<rparr>"
  by (cases "selectedUser c"; cases "isDirectMessage c")
     (simp_all add: onmessage_def bootAccepts_def [abs_def] Let_def)

lemma onmessage_Message:
  "onmessage clk user c (Parsed (Message m)) prev =
     (if liveAccepts user c m then prev\<lparr>messages := messages prev @ [m]\<rparr> else prev)"
  by (simp add: onmessage_def liveAccepts_def)

lemma onmessage_Delete:
  "onmessage clk user c (Parsed (Delete messageId)) prev =
     prev\<lparr>messages := filter (\<lambda>msg. msg_id msg \<noteq> Some messageId) (messages prev)\<rparr>"
  by (simp add: onmessage_def)

lemma onmessage_ReactionEv:
  "onmessage clk user c (Parsed (ReactionEv messageId reaction)) prev =
     prev\<lparr>messages := map (\<lambda>msg.
         if msg_id msg = Some messageId
         then with_reactions msg (orEmpty (reactions msg) @ [reaction])
         else msg) (messages prev)\<rparr>"
  by (simp add: onmessage_def)

lemma onmessage_Unparseable:
  "onmessage clk user c (Unparseable data) prev =
     (if trim data \<noteq> []
      then prev\<lparr>messages := messages prev @
             [ChatMessage (Some (nowString clk))
                \<lparr>uid = 0, username = js ''System'', email = js ''system''\<rparr>
                data (nowISO clk) (Some TextT)
                None None None None Undefined None None None]\<rparr>
      else prev)"
  by (simp add: onmessage_def Let_def)

lemma deliver_messages:
  "deliver user c (map messageFrame fs) prev =
     prev\<lparr>messages := messages prev @ filter (liveAccepts user c) (map snd fs)\<rparr>"
proof (induction fs arbitrary: prev)
  case Nil
  show ?case by simp
next
  case (Cons f fs)
  obtain clk m where f: "f = (clk, m)" by (cases f)
  show ?case
    by (simp add: f messageFrame_def onmessage_Message Cons.IH [unfolded messageFrame_def])
qed

section \<open>Displayed history\<close>

text \<open>Switching the conversation and receiving frames leave the installed handler alone.\<close>

lemma selectUser_keeps_handler: "captured (selectUser u cl) = captured cl"
  by (simp add: selectUser_def handleUserSelect_def)

lemma selectGeneralChat_keeps_handler: "captured (selectGeneralChat cl) = captured cl"
  by (simp add: selectGeneralChat_def handleGeneralChat_def)

lemma receive_keeps_handler: "captured (receive clk user event cl) = captured cl"
  by (cases "captured cl") (simp_all add: receive_def)

text \<open>
  C1. The claim: in general chat the displayed history has no message with a recipient,
  and in a direct conversation with a selected user \<open>b\<close> it has exactly the messages
  between the current user and \<open>b\<close>. The code breaks the second half. The handler
  filters by the conversation it captured when the socket was opened, the general chat,
  and a click on a user does not install a new one. After alice clicks on bob, a boot
  snapshot and a live message are still filtered as general chat: carol's message for
  everyone is displayed in the conversation with bob, and bob's two direct messages to
  alice are not.
\<close>

theorem direct_conversation_is_filtered_as_general_chat:
  "conversation (selectUser bob (connectEffect mounted)) = directWith bob \<and>
   captured (selectUser bob (connectEffect mounted)) = Some generalChat \<and>
   messages (feed
      (receive noon alice (Parsed (Message (textMessage ''3'' bob ''again'' (Val 1))))
        (receive noon alice
           (Parsed (Boot (Some [textMessage ''1'' carol ''all'' Undefined,
                                textMessage ''2'' bob ''to alice'' (Val 1)]) None))
           (selectUser bob (connectEffect mounted))))) =
     [textMessage ''1'' carol ''all'' Undefined]"
  by (simp add: selectUser_def connectEffect_def mounted_def receive_def handleUserSelect_def
      initialConversation_def directWith_def generalChat_def onmessage_Boot onmessage_Message
      bootAccepts_def liveAccepts_def textMessage_def)

text \<open>
  In every conversation state the client reaches, direct-message mode has a selected
  user: \<open>handleUserSelect\<close> and \<open>handleGeneralChat\<close> set both variables together.
\<close>

lemma reachableConversation_selected:
  "reachableConversation c \<Longrightarrow> isDirectMessage c \<longrightarrow> selectedUser c \<noteq> None"
  by (induction rule: reachableConversation.induct)
     (simp_all add: initialConversation_def handleUserSelect_def handleGeneralChat_def)

text \<open>
  C2. For every message and every conversation state the client can be in, the boot
  branch and the \<open>message\<close> branch admit exactly the same messages: the two predicates
  agree, and a boot snapshot shows what a listener starting from an empty list
  accumulates from the same messages delivered live.
\<close>

theorem boot_and_live_admit_the_same_messages:
  assumes "reachableConversation c"
  shows "bootAccepts user c m = liveAccepts user c m \<and>
    messages (onmessage clk user c (Parsed (Boot (Some (map snd fs)) ous)) prev) =
    messages (deliver user c (map messageFrame fs) (prev\<lparr>messages := []\<rparr>))"
proof -
  have "isDirectMessage c \<longrightarrow> selectedUser c \<noteq> None"
    using assms by (rule reachableConversation_selected)
  then have "bootAccepts user c = liveAccepts user c"
    by (auto simp add: bootAccepts_def liveAccepts_def fun_eq_iff)
  then show ?thesis
    by (simp add: onmessage_Boot deliver_messages)
qed

theorem boot_and_live_admit_the_same_messages_witness:
  "reachableConversation (directWith bob) \<and>
   bootAccepts alice (directWith bob) (textMessage ''1'' bob ''hi'' (Val 1)) =
     liveAccepts alice (directWith bob) (textMessage ''1'' bob ''hi'' (Val 1)) \<and>
   messages (onmessage noon alice (directWith bob)
      (Parsed (Boot (Some (map snd [(noon, textMessage ''1'' bob ''hi'' (Val 1)),
                                    (noon, textMessage ''2'' carol ''yo'' (Val 1))])) None)) emptyFeed) =
   messages (deliver alice (directWith bob)
      (map messageFrame [(noon, textMessage ''1'' bob ''hi'' (Val 1)),
                         (noon, textMessage ''2'' carol ''yo'' (Val 1))])
      (emptyFeed\<lparr>messages := []\<rparr>))"
proof -
  have "reachableConversation (fst (handleUserSelect bob (initialConversation, emptyFeed)))"
    by (rule reachableConversation.select) (rule reachableConversation.initial)
  then have r: "reachableConversation (directWith bob)"
    by (simp add: handleUserSelect_def initialConversation_def directWith_def)
  show ?thesis
    using r boot_and_live_admit_the_same_messages [OF r, of alice
        "textMessage ''1'' bob ''hi'' (Val 1)" noon
        "[(noon, textMessage ''1'' bob ''hi'' (Val 1)), (noon, textMessage ''2'' carol ''yo'' (Val 1))]"
        None emptyFeed]
    by blast
qed

text \<open>
  C8. For every sequence of \<open>message\<close> events handled with the conversation state
  fixed, the resulting list is the previous list, untouched, followed by the accepted
  messages in the order the events arrived; nothing else in the state changes.
\<close>

theorem live_messages_append_in_arrival_order:
  "deliver user c (map messageFrame fs) prev =
     prev\<lparr>messages := messages prev @ filter (liveAccepts user c) (map snd fs)\<rparr>"
  by (rule deliver_messages)

theorem live_messages_append_in_arrival_order_witness:
  "messages (deliver alice generalChat
      (map messageFrame [(noon, textMessage ''1'' bob ''one'' Undefined),
                         (noon, textMessage ''2'' bob ''to carol'' (Val 3)),
                         (noon, textMessage ''3'' carol ''three'' Null)])
      (emptyFeed\<lparr>messages := [textMessage ''0'' alice ''zero'' Undefined]\<rparr>)) =
   [textMessage ''0'' alice ''zero'' Undefined, textMessage ''1'' bob ''one'' Undefined,
    textMessage ''3'' carol ''three'' Null]"
  using live_messages_append_in_arrival_order [of alice generalChat
      "[(noon, textMessage ''1'' bob ''one'' Undefined),
        (noon, textMessage ''2'' bob ''to carol'' (Val 3)),
        (noon, textMessage ''3'' carol ''three'' Null)]"
      "emptyFeed\<lparr>messages := [textMessage ''0'' alice ''zero'' Undefined]\<rparr>"]
  by (simp add: liveAccepts_def generalChat_def textMessage_def emptyFeed_def)

section \<open>Deletion and reactions\<close>

text \<open>
  C4. Handling a \<open>delete\<close> event carrying \<open>messageId\<close> leaves no message with that id
  in the displayed list, and the messages with any other id (or none) are the same as
  before, with the same fields and in the same order; the online users are untouched.
\<close>

theorem delete_event_removes_only_the_message:
  "(\<forall>m \<in> set (messages (onmessage clk user c (Parsed (Delete messageId)) prev)).
       msg_id m \<noteq> Some messageId) \<and>
   filter (\<lambda>m. msg_id m \<noteq> Some messageId)
      (messages (onmessage clk user c (Parsed (Delete messageId)) prev)) =
     filter (\<lambda>m. msg_id m \<noteq> Some messageId) (messages prev) \<and>
   onlineUsers (onmessage clk user c (Parsed (Delete messageId)) prev) = onlineUsers prev"
  by (simp add: onmessage_Delete)

theorem delete_event_removes_only_the_message_witness:
  "messages (onmessage noon alice generalChat (Parsed (Delete (js ''2'')))
      (emptyFeed\<lparr>messages := [textMessage ''1'' bob ''one'' Undefined,
                               textMessage ''2'' alice ''two'' Undefined,
                               textMessage ''3'' carol ''three'' Undefined,
                               textMessage ''2'' alice ''two'' Undefined]\<rparr>)) =
     [textMessage ''1'' bob ''one'' Undefined, textMessage ''3'' carol ''three'' Undefined]"
  using delete_event_removes_only_the_message [of noon alice generalChat "js ''2''"
      "emptyFeed\<lparr>messages := [textMessage ''1'' bob ''one'' Undefined,
                               textMessage ''2'' alice ''two'' Undefined,
                               textMessage ''3'' carol ''three'' Undefined,
                               textMessage ''2'' alice ''two'' Undefined]\<rparr>"]
  by (simp add: onmessage_Delete textMessage_def js_def emptyFeed_def)

text \<open>
  C3. The claim: after two \<open>addReaction(id, u, e)\<close> attempts and the \<open>reaction\<close> events
  that follow, the message shows one entry per emoji, with \<open>u\<close> once among the users
  of the entry for \<open>e\<close>. The code breaks it. Each attempt posts the same request; the
  \<open>reaction\<close> branch appends the entry an event carries and never replaces the entry
  already there for that emoji, so the two events leave two entries for the emoji on
  the message, where a boot snapshot of the stored message shows one.
\<close>

theorem same_reaction_twice_is_shown_twice:
  "addReaction (js ''token'') (Some OPEN) (js ''1'') thumbsUp =
     Some \<lparr>httpMethod = ''POST'',
           url = js ''http://localhost:8000/messages/1/reactions'',
           bearer = js ''token'', body = Some (JObject [(''emoji'', JString thumbsUp)])\<rparr> \<and>
   reactions (hd (messages (deliver alice generalChat
      [(noon, Parsed (ReactionEv (js ''1'') \<lparr>emoji = thumbsUp, users = [js ''alice'']\<rparr>)),
       (noon, Parsed (ReactionEv (js ''1'') \<lparr>emoji = thumbsUp, users = [js ''alice'']\<rparr>))]
      (emptyFeed\<lparr>messages := [textMessage ''1'' bob ''hi'' Undefined]\<rparr>)))) =
     Some [\<lparr>emoji = thumbsUp, users = [js ''alice'']\<rparr>, \<lparr>emoji = thumbsUp, users = [js ''alice'']\<rparr>] \<and>
   reactions (hd (messages (onmessage noon alice generalChat
      (Parsed (Boot (Some [with_reactions (textMessage ''1'' bob ''hi'' Undefined)
                             [\<lparr>emoji = thumbsUp, users = [js ''alice'']\<rparr>]]) None))
      emptyFeed))) =
     Some [\<lparr>emoji = thumbsUp, users = [js ''alice'']\<rparr>]"
  by (simp add: addReaction_def onmessage_ReactionEv onmessage_Boot bootAccepts_def
      generalChat_def textMessage_def js_def emptyFeed_def)

section \<open>The plain-text fallback\<close>

text \<open>
  C5 (as amended). For every inbound frame whose payload fails to parse as JSON and
  whose trimmed text is not empty, the handler returns normally and appends one message
  whose content is the raw payload, with \<open>messageType\<close> text, no recipient, no reply and
  no file.
\<close>

theorem unparseable_text_becomes_plain_message:
  assumes "trim data \<noteq> []"
  shows "\<exists>m. onmessage clk user c (Unparseable data) prev = prev\<lparr>messages := messages prev @ [m]\<rparr> \<and>
    content m = data \<and> messageType m = Some TextT \<and> recipientId m = Undefined \<and>
    msg_replyTo m = None \<and> fileUrl m = None"
proof (intro exI conjI)
  show "onmessage clk user c (Unparseable data) prev = prev\<lparr>messages := messages prev @
      [ChatMessage (Some (nowString clk))
         \<lparr>uid = 0, username = js ''System'', email = js ''system''\<rparr>
         data (nowISO clk) (Some TextT)
         None None None None Undefined None None None]\<rparr>"
    using assms by (simp add: onmessage_Unparseable)
qed simp_all

theorem unparseable_text_becomes_plain_message_witness:
  "trim (js ''hello'') \<noteq> [] \<and>
   map content (messages (onmessage noon alice generalChat (Unparseable (js ''hello'')) emptyFeed)) =
     [js ''hello'']"
proof -
  have h: "trim (js ''hello'') \<noteq> []"
    by (simp add: trim_def js_def isWhiteSpace_def)
  from unparseable_text_becomes_plain_message [OF h, of noon alice generalChat emptyFeed]
  obtain m where "onmessage noon alice generalChat (Unparseable (js ''hello'')) emptyFeed =
      emptyFeed\<lparr>messages := messages emptyFeed @ [m]\<rparr>" and "content m = js ''hello''"
    by blast
  then show ?thesis
    using h by (simp add: emptyFeed_def)
qed

text \<open>
  C5 as stated fails: a payload of white space does not parse as JSON and nothing is
  appended for it (the guard \<open>asText.trim().length > 0\<close>).
\<close>

theorem blank_unparseable_frame_is_dropped:
  "messages (onmessage noon alice generalChat (Unparseable (js ''  ''))
      (emptyFeed\<lparr>messages := [textMessage ''1'' bob ''hi'' Undefined]\<rparr>)) =
     [textMessage ''1'' bob ''hi'' Undefined]"
  by (simp add: onmessage_Unparseable trim_def js_def isWhiteSpace_def emptyFeed_def)

text \<open>
  C10. In the fallback, a payload whose trimmed text is empty leaves the state as it
  was, and every message the fallback adds is attributed to the synthetic user
  \<open>{id: 0, username: "System", email: "system"}\<close> with \<open>messageType\<close> text, whoever
  the current and the selected user are.
\<close>

theorem fallback_drops_blank_and_attributes_to_System:
  "(trim data = [] \<longrightarrow> onmessage clk user c (Unparseable data) prev = prev) \<and>
   (\<forall>m \<in> set (messages (onmessage clk user c (Unparseable data) prev)).
      m \<in> set (messages prev) \<or>
      (msg_user m = \<lparr>uid = 0, username = js ''System'', email = js ''system''\<rparr> \<and>
       messageType m = Some TextT))"
  by (simp add: onmessage_Unparseable)

theorem fallback_drops_blank_and_attributes_to_System_witness:
  "trim [0x20, 0x0A] = [] \<and>
   onmessage noon alice (directWith bob) (Unparseable [0x20, 0x0A]) emptyFeed = emptyFeed \<and>
   map msg_user (messages (onmessage noon alice (directWith bob) (Unparseable (js ''ping'')) emptyFeed)) =
     [\<lparr>uid = 0, username = js ''System'', email = js ''system''\<rparr>]"
proof -
  have blank: "trim [0x20, 0x0A] = []"
    by (simp add: trim_def isWhiteSpace_def)
  have ping: "trim (js ''ping'') \<noteq> []"
    by (simp add: trim_def js_def isWhiteSpace_def)
  show ?thesis
    using blank ping
      fallback_drops_blank_and_attributes_to_System [of "[0x20, 0x0A]" noon alice "directWith bob" emptyFeed]
    by (simp add: onmessage_Unparseable emptyFeed_def)
qed

section \<open>Frames the client sends\<close>



text \<open>
  C7. The claim: every message-bearing frame the client sends has a non-empty content or
  carries a \<open>fileUrl\<close>, so the store never answers it with \<open>ValidationError\<close>. The code
  breaks it in two places. In general chat \<open>sendMessage\<close> sends the typed text raw: the
  text \<open>{"content":""}\<close> goes out as it is, a structured payload with an empty content
  and no \<open>fileUrl\<close>, while in a direct conversation the same text is wrapped as the
  content of a JSON frame and is valid. And \<open>handleFileUpload\<close> sends an empty content
  with whatever the upload's answer held: when the answer has no \<open>fileUrl\<close>, neither
  has the frame.
\<close>

theorem raw_json_text_and_bare_upload_fail_validation:
  "fst (sendMessage generalChat \<lparr>wsRef = Some OPEN, input = emptyContentText, replyTo = None\<rparr>) =
     Some (TextFrame emptyContentText) \<and>
   \<not> validPayload (JObject [(''content'', JString [])]) \<and>
   fst (sendMessage (directWith bob) \<lparr>wsRef = Some OPEN, input = emptyContentText, replyTo = None\<rparr>) =
     Some (JsonFrame (JObject
        [(''content'', JString emptyContentText),
         (''replyTo'', JNull),
         (''recipientId'', JNumber 2),
         (''messageType'', JString (js ''text''))])) \<and>
   validPayload (JObject
        [(''content'', JString emptyContentText),
         (''replyTo'', JNull),
         (''recipientId'', JNumber 2),
         (''messageType'', JString (js ''text''))]) \<and>
   fst (handleFileUpload (Some \<lparr>fileType = js ''application/pdf''\<rparr>)
      (UploadOk \<lparr>upFileUrl = None, upFileName = None, upFileSize = None\<rparr>)
      \<lparr>wsRef = Some OPEN, input = [], replyTo = None\<rparr>) =
     Some (JsonFrame (JObject
        [(''content'', JString []),
         (''messageType'', JString (js ''file'')),
         (''replyTo'', JNull)])) \<and>
   \<not> validPayload (JObject
        [(''content'', JString []),
         (''messageType'', JString (js ''file'')),
         (''replyTo'', JNull)])"
proof -
  have t: "trim emptyContentText = emptyContentText" "emptyContentText \<noteq> []"
    by (simp_all add: trim_def emptyContentText_def isWhiteSpace_def)
  have p: "\<not> startsWith (js ''application/pdf'') (js ''image/'')"
    "\<not> startsWith (js ''application/pdf'') (js ''video/'')"
    by (simp_all add: startsWith_def js_def)
  show ?thesis
    by (simp add: t p sendMessage_def handleFileUpload_def Let_def
        generalChat_def directWith_def bob_def)
qed

section \<open>The e-mail expression\<close>

text \<open>
  The matcher decides the language of the expression: \<open>test r s\<close> holds exactly when
  some substring of \<open>s\<close> is a word of \<open>r\<close>. For the e-mail expression this is a run
  of non-space code units, \<open>@\<close>, another run, a dot and a third run, anywhere in the
  string.
\<close>

inductive_simps denotes_Zero: "denotes Zero w"
inductive_simps denotes_One: "denotes One w"
inductive_simps denotes_Atom: "denotes (Atom a) w"
inductive_simps denotes_Alt: "denotes (Alt r s) w"
inductive_simps denotes_Seq: "denotes (Seq r s) w"

lemma nullable_iff: "nullable r \<longleftrightarrow> denotes r []"
  by (induction r) (auto simp add: denotes_Zero denotes_One denotes_Atom denotes_Alt denotes_Seq
      intro: dStarNil)

lemma denotes_Star_Cons:
  "denotes r' x \<Longrightarrow> r' = Star r \<Longrightarrow> x = c # w \<Longrightarrow>
     \<exists>u v. w = u @ v \<and> denotes r (c # u) \<and> denotes (Star r) v"
proof (induction arbitrary: w rule: denotes.induct)
  case (dStarCons r0 u v)
  show ?case
  proof (cases u)
    case Nil
    with dStarCons show ?thesis by simp
  next
    case (Cons a u')
    with dStarCons have "w = u' @ v" "denotes r (c # u')" "denotes (Star r) v"
      by simp_all
    then show ?thesis by blast
  qed
qed simp_all

lemma denotes_deriv: "denotes (deriv c r) w \<longleftrightarrow> denotes r (c # w)"
proof (induction r arbitrary: w)
  case Zero
  show ?case by (simp add: denotes_Zero)
next
  case One
  show ?case by (simp add: denotes_Zero denotes_One)
next
  case (Atom a)
  show ?case by (auto simp add: denotes_Zero denotes_One denotes_Atom)
next
  case (Alt r s)
  then show ?case by (simp add: denotes_Alt)
next
  case (Seq r s)
  show ?case
    by (auto simp add: denotes_Alt denotes_Seq Seq nullable_iff Cons_eq_append_conv)
next
  case (Star r)
  show ?case
  proof
    assume "denotes (deriv c (Star r)) w"
    then obtain u v where "w = u @ v" "denotes (deriv c r) u" "denotes (Star r) v"
      by (auto simp add: denotes_Seq)
    then show "denotes (Star r) (c # w)"
      using dStarCons [of r "c # u" v] by (simp add: Star)
  next
    assume "denotes (Star r) (c # w)"
    from denotes_Star_Cons [OF this refl refl]
    show "denotes (deriv c (Star r)) w"
      by (auto simp add: denotes_Seq Star)
  qed
qed

lemma matchesPrefix_iff: "matchesPrefix r s \<longleftrightarrow> (\<exists>u v. s = u @ v \<and> denotes r u)"
proof (induction s arbitrary: r)
  case Nil
  show ?case by (simp add: nullable_iff)
next
  case (Cons c s)
  show ?case
    by (auto simp add: Cons nullable_iff denotes_deriv Cons_eq_append_conv)
qed

lemma test_iff: "test r s \<longleftrightarrow> (\<exists>u w v. s = u @ w @ v \<and> denotes r w)"
proof (induction s)
  case Nil
  show ?case by (simp add: nullable_iff)
next
  case (Cons c s)
  have "(\<exists>u w v. c # s = u @ w @ v \<and> denotes r w) \<longleftrightarrow>
      (\<exists>w v. c # s = w @ v \<and> denotes r w) \<or> (\<exists>u w v. s = u @ w @ v \<and> denotes r w)"
    (is "?L \<longleftrightarrow> ?A \<or> ?B")
  proof
    assume ?L
    then obtain u w v where *: "c # s = u @ w @ v" "denotes r w" by blast
    show "?A \<or> ?B"
    proof (cases u)
      case Nil
      with * show ?thesis by auto
    next
      case (Cons a u')
      with * have "s = u' @ w @ v" by simp
      with * show ?thesis by blast
    qed
  next
    assume "?A \<or> ?B"
    then show ?L
    proof
      assume ?A
      then obtain w v where "c # s = [] @ w @ v" "denotes r w" by auto
      then show ?L by blast
    next
      assume ?B
      then obtain u w v where "c # s = (c # u) @ w @ v" "denotes r w" by auto
      then show ?L by blast
    qed
  qed
  then show ?case
    by (simp add: Cons matchesPrefix_iff)
qed

lemma denotes_Star_NonSpace:
  "denotes (Star (Atom NonSpace)) w \<longleftrightarrow> (\<forall>x \<in> set w. \<not> isWhiteSpace x)"
proof
  have "denotes r' w \<Longrightarrow> r' = Star (Atom NonSpace) \<Longrightarrow> \<forall>x \<in> set w. \<not> isWhiteSpace x" for r'
    by (induction rule: denotes.induct) (auto simp add: denotes_Atom)
  then show "denotes (Star (Atom NonSpace)) w \<Longrightarrow> \<forall>x \<in> set w. \<not> isWhiteSpace x"
    by simp
next
  show "\<forall>x \<in> set w. \<not> isWhiteSpace x \<Longrightarrow> denotes (Star (Atom NonSpace)) w"
  proof (induction w)
    case Nil
    show ?case by (rule dStarNil)
  next
    case (Cons x w)
    then have "denotes (Atom NonSpace) [x]" "denotes (Star (Atom NonSpace)) w"
      by (simp_all add: denotes_Atom)
    then show ?case
      using dStarCons [of "Atom NonSpace" "[x]" w] by simp
  qed
qed

lemma denotes_Plus_NonSpace:
  "denotes (Plus (Atom NonSpace)) w \<longleftrightarrow> w \<noteq> [] \<and> (\<forall>x \<in> set w. \<not> isWhiteSpace x)"
proof (cases w)
  case Nil
  show ?thesis by (simp add: Nil Plus_def denotes_Seq denotes_Atom)
next
  case (Cons x v)
  have "denotes (Plus (Atom NonSpace)) (x # v) \<longleftrightarrow>
      \<not> isWhiteSpace x \<and> (\<forall>y \<in> set v. \<not> isWhiteSpace y)"
  proof
    assume "denotes (Plus (Atom NonSpace)) (x # v)"
    then obtain u t where "x # v = u @ t" "denotes (Atom NonSpace) u"
      "denotes (Star (Atom NonSpace)) t"
      unfolding Plus_def denotes_Seq by blast
    then show "\<not> isWhiteSpace x \<and> (\<forall>y \<in> set v. \<not> isWhiteSpace y)"
      by (auto simp add: denotes_Atom denotes_Star_NonSpace)
  next
    assume "\<not> isWhiteSpace x \<and> (\<forall>y \<in> set v. \<not> isWhiteSpace y)"
    then have "denotes (Atom NonSpace) [x]" "denotes (Star (Atom NonSpace)) v"
      by (simp_all add: denotes_Atom denotes_Star_NonSpace)
    then show "denotes (Plus (Atom NonSpace)) (x # v)"
      using dSeq [of "Atom NonSpace" "[x]" "Star (Atom NonSpace)" v] by (simp add: Plus_def)
  qed
  then show ?thesis by (simp add: Cons)
qed

lemma denotes_Lit: "denotes (Atom (Lit a)) w \<longleftrightarrow> w = [a]"
  by (auto simp add: denotes_Atom)

lemma denotes_emailRegex:
  "denotes emailRegex w \<longleftrightarrow>
     (\<exists>a b c. w = a @ [0x40] @ b @ [0x2E] @ c \<and> a \<noteq> [] \<and> b \<noteq> [] \<and> c \<noteq> [] \<and>
        (\<forall>x \<in> set (a @ b @ c). \<not> isWhiteSpace x))"
proof
  assume "denotes emailRegex w"
  then obtain a b c where "w = a @ [0x40] @ b @ [0x2E] @ c"
    "denotes (Plus (Atom NonSpace)) a" "denotes (Plus (Atom NonSpace)) b"
    "denotes (Plus (Atom NonSpace)) c"
    unfolding emailRegex_def denotes_Seq denotes_Lit by blast
  then show "\<exists>a b c. w = a @ [0x40] @ b @ [0x2E] @ c \<and> a \<noteq> [] \<and> b \<noteq> [] \<and> c \<noteq> [] \<and>
        (\<forall>x \<in> set (a @ b @ c). \<not> isWhiteSpace x)"
    unfolding denotes_Plus_NonSpace by (intro exI [of _ a] exI [of _ b] exI [of _ c]) auto
next
  assume "\<exists>a b c. w = a @ [0x40] @ b @ [0x2E] @ c \<and> a \<noteq> [] \<and> b \<noteq> [] \<and> c \<noteq> [] \<and>
        (\<forall>x \<in> set (a @ b @ c). \<not> isWhiteSpace x)"
  then obtain a b c where w: "w = a @ [0x40] @ b @ [0x2E] @ c"
    and "denotes (Plus (Atom NonSpace)) a" "denotes (Plus (Atom NonSpace)) b"
    "denotes (Plus (Atom NonSpace)) c"
    unfolding denotes_Plus_NonSpace by auto
  then show "denotes emailRegex w"
    unfolding emailRegex_def w
    by (intro dSeq) (simp_all add: denotes_Lit)
qed

lemma test_emailRegex:
  "test emailRegex s \<longleftrightarrow>
     (\<exists>u a b c v. s = u @ a @ [0x40] @ b @ [0x2E] @ c @ v \<and> a \<noteq> [] \<and> b \<noteq> [] \<and> c \<noteq> [] \<and>
        (\<forall>x \<in> set (a @ b @ c). \<not> isWhiteSpace x))"
proof -
  have "test emailRegex s \<longleftrightarrow>
      (\<exists>u v a b c. s = u @ (a @ [0x40] @ b @ [0x2E] @ c) @ v \<and> a \<noteq> [] \<and> b \<noteq> [] \<and> c \<noteq> [] \<and>
        (\<forall>x \<in> set (a @ b @ c). \<not> isWhiteSpace x))"
    unfolding test_iff denotes_emailRegex by blast
  also have "\<dots> \<longleftrightarrow> (\<exists>u a b c v. s = u @ a @ [0x40] @ b @ [0x2E] @ c @ v \<and> a \<noteq> [] \<and> b \<noteq> [] \<and> c \<noteq> [] \<and>
        (\<forall>x \<in> set (a @ b @ c). \<not> isWhiteSpace x))"
    by (simp only: append.assoc) blast
  finally show ?thesis .
qed

section \<open>Submitting the form\<close>

text \<open>
  C9. \<open>handleSubmit\<close> calls \<open>onSubmit\<close> exactly when the e-mail is non-empty and matches
  \<open>/\S+@\S+\.\S+/\<close>, the password has at least 6 code units and, in sign-up mode only,
  the username is non-empty with at least 3 code units. The payload holds the e-mail and
  the password as typed, and the username in sign-up mode only.
\<close>

theorem handleSubmit_iff_valid:
  "(handleSubmit mode formData \<noteq> None \<longleftrightarrow>
      fdEmail formData \<noteq> [] \<and> test emailRegex (fdEmail formData) \<and>
      6 \<le> length (fdPassword formData) \<and>
      (mode = signup \<longrightarrow> fdUsername formData \<noteq> [] \<and> 3 \<le> length (fdUsername formData))) \<and>
   (\<forall>d. handleSubmit mode formData = Some d \<longrightarrow>
      sdEmail d = fdEmail formData \<and> sdPassword d = fdPassword formData \<and>
      sdUsername d = (if mode = signup then Some (fdUsername formData) else None))"
  by (cases mode) (auto simp add: handleSubmit_def formIsValid_def validateForm_def)

theorem handleSubmit_iff_valid_witness:
  "handleSubmit signin \<lparr>fdEmail = js ''a@b.co'', fdPassword = js ''secret'', fdUsername = []\<rparr> =
     Some \<lparr>sdEmail = js ''a@b.co'', sdPassword = js ''secret'', sdUsername = None\<rparr> \<and>
   handleSubmit signup \<lparr>fdEmail = js ''a@b.co'', fdPassword = js ''secret'', fdUsername = js ''al''\<rparr> = None \<and>
   handleSubmit signup \<lparr>fdEmail = js ''a@b.co'', fdPassword = js ''secret'', fdUsername = js ''ali''\<rparr> =
     Some \<lparr>sdEmail = js ''a@b.co'', sdPassword = js ''secret'', sdUsername = Some (js ''ali'')\<rparr> \<and>
   handleSubmit signin \<lparr>fdEmail = js ''a@b'', fdPassword = js ''secret'', fdUsername = []\<rparr> = None"
proof -
  have e: "test emailRegex (js ''a@b.co'')" "\<not> test emailRegex (js ''a@b'')"
    "js ''a@b.co'' \<noteq> []" "length (js ''secret'') = 6" "length (js ''al'') = 2"
    "length (js ''ali'') = 3" "js ''ali'' \<noteq> []" "js ''al'' \<noteq> []"
    by (simp_all add: emailRegex_def Plus_def js_def isWhiteSpace_def)
  show ?thesis
    using handleSubmit_iff_valid [of signin
        "\<lparr>fdEmail = js ''a@b.co'', fdPassword = js ''secret'', fdUsername = []\<rparr>"]
      handleSubmit_iff_valid [of signup
        "\<lparr>fdEmail = js ''a@b.co'', fdPassword = js ''secret'', fdUsername = js ''al''\<rparr>"]
      handleSubmit_iff_valid [of signup
        "\<lparr>fdEmail = js ''a@b.co'', fdPassword = js ''secret'', fdUsername = js ''ali''\<rparr>"]
      handleSubmit_iff_valid [of signin
        "\<lparr>fdEmail = js ''a@b'', fdPassword = js ''secret'', fdUsername = []\<rparr>"]
    by (auto simp add: e)
qed

end
